theory Spec2Isabelle
  imports Main "HOL-Library.AList"
begin

section \<open>Data model\<close>

text \<open>
  Identifiers are Go string types (\<^verbatim>\<open>types.UID\<close>, \<^verbatim>\<open>k8s.PodID\<close>,
  \<^verbatim>\<open>model.ManifestName\<close>, \<^verbatim>\<open>container.ID\<close>, \<^verbatim>\<open>container.Name\<close>); the empty
  string is their zero value. A \<^verbatim>\<open>time.Time\<close> is an integer number of nanoseconds
  counted from the zero time, so \<^verbatim>\<open>IsZero\<close> is equality with 0; a
  \<^verbatim>\<open>time.Duration\<close> is an integer number of nanoseconds. Port numbers and restart
  counts are only compared, converted to a wider type or summed, so they are
  unbounded integers.
\<close>

type_synonym UID = string
type_synonym PodID = string
type_synonym ManifestName = string
type_synonym ContainerID = string
type_synonym ContainerName = string
type_synonym Namespace = string
type_synonym SpanID = string
type_synonym Time = int
type_synonym Duration = int

text \<open>\<^verbatim>\<open>store.Container\<close>: the fields read by the code below.\<close>

record Container =
  ctrName :: ContainerName
  ctrID :: ContainerID
  ctrPorts :: "int list"
  ctrReady :: bool
  ctrRunning :: bool
  ctrTerminated :: bool
  ctrRestarts :: int

typedecl PodCondition

text \<open>
  \<^verbatim>\<open>store.Pod\<close>. \<^verbatim>\<open>Phase\<close> is the string type \<^verbatim>\<open>v1.PodPhase\<close>.
\<close>

record Pod =
  PodID :: PodID
  Namespace :: Namespace
  StartedAt :: Time
  Status :: string
  Phase :: string
  Deleting :: bool
  StatusMessages :: "string list"
  Conditions :: "PodCondition list"
  InitContainers :: "Container list"
  Containers :: "Container list"
  BaselineRestarts :: int
  SpanID :: SpanID

definition PodRunning :: string where "PodRunning = ''Running''"
definition PodSucceeded :: string where "PodSucceeded = ''Succeeded''"
definition PodFailed :: string where "PodFailed = ''Failed''"

text \<open>The zero value \<^verbatim>\<open>store.Pod{}\<close>.\<close>

definition zeroPod :: Pod where
  "zeroPod = \<lparr>PodID = '''', Namespace = '''', StartedAt = 0, Status = '''', Phase = '''',
     Deleting = False, StatusMessages = [], Conditions = [], InitContainers = [],
     Containers = [], BaselineRestarts = 0, SpanID = ''''\<rparr>"

text \<open>\<^verbatim>\<open>model.PortForward\<close>: the fields read by the code below.\<close>

record PortForward =
  LocalPort :: int
  ContainerPort :: int
  Host :: string

text \<open>
  \<^verbatim>\<open>model.Manifest\<close>: its name and the port forwards of its Kubernetes target
  (\<^verbatim>\<open>m.K8sTarget().PortForwards\<close>).
\<close>

record Manifest =
  mName :: ManifestName
  mPortForwards :: "PortForward list"

text \<open>
  The Kubernetes pod object \<^verbatim>\<open>v1.Pod\<close> carried by a pod change: the fields read
  by the code below. A nil \<^verbatim>\<open>DeletionTimestamp\<close> is \<open>None\<close>. The container
  statuses are only handed to \<^verbatim>\<open>k8sconv.PodContainers\<close>.
\<close>

record ContainerStatus =
  csName :: string
  csContainerID :: string
  csReady :: bool
  csRunning :: bool
  csRestartCount :: int

record V1Pod =
  v1UID :: UID
  v1Name :: string
  v1Namespace :: string
  v1Labels :: "(string \<times> string) list"
  v1CreationTimestamp :: Time
  v1DeletionTimestamp :: "Time option"
  v1Phase :: string
  v1Conditions :: "PodCondition list"
  v1InitContainerStatuses :: "ContainerStatus list"
  v1ContainerStatuses :: "ContainerStatus list"

text \<open>\<^verbatim>\<open>k8swatch.PodChangeAction\<close>.\<close>

record PodChangeAction =
  actPod :: V1Pod
  actManifestName :: ManifestName
  actMatchedAncestorUID :: UID

text \<open>
  \<^verbatim>\<open>store.K8sRuntimeState\<close>. The Go map \<^verbatim>\<open>Pods\<close> (pod ID to pod pointer) is an
  association list with distinct keys. A \<^verbatim>\<open>range\<close> over a Go map visits the keys in
  an order the runtime chooses; the order of the list stands for that order, and
  the theorems below hold for every list, hence for every order. Sets of
  identifiers (\<^verbatim>\<open>UIDSet\<close>, \<^verbatim>\<open>container.IDSet\<close>) are sets.
\<close>

record K8sRuntimeState =
  Pods :: "(PodID \<times> Pod) list"
  PodAncestorUID :: UID
  DeployedUIDSet :: "UID set"
  DeployedPodTemplateSpecHashSet :: "string set"
  LastReadyOrSucceededTime :: Time

text \<open>
  \<^verbatim>\<open>ManifestState.RuntimeState\<close> is an interface value: a Kubernetes runtime state
  or anything else (nil, a docker-compose or a local runtime state).
\<close>

datatype RuntimeState = K8sRuntime K8sRuntimeState | OtherRuntime

record ManifestState =
  msName :: ManifestName
  RuntimeState :: RuntimeState
  NeedsRebuildFromCrash :: bool
  LiveUpdatedContainerIDs :: "ContainerID set"

record ManifestTarget =
  mtManifest :: Manifest
  mtState :: ManifestState

datatype Level = InfoLvl | WarnLvl

text \<open>\<^verbatim>\<open>store.LogAction\<close> as built by \<^verbatim>\<open>store.NewLogAction\<close> (the fields are nil here).\<close>

record LogAction =
  laManifestName :: ManifestName
  laSpanID :: SpanID
  laLevel :: Level
  laMessage :: string

text \<open>
  \<^verbatim>\<open>store.EngineState\<close>: the manifest targets by name and the log store, as the
  list of the log actions it received.
\<close>

record EngineState =
  ManifestTargets :: "ManifestName \<rightharpoonup> ManifestTarget"
  LogStore :: "LogAction list"

text \<open>
  The functions of the packages \<^verbatim>\<open>store\<close>, \<^verbatim>\<open>k8s\<close>, \<^verbatim>\<open>k8sconv\<close> and
  \<^verbatim>\<open>runtimelog\<close> that the code below calls and that are not among the sources are
  parameters, collected in one record; every theorem holds for all of them.
  \<^verbatim>\<open>PodStatusToString\<close> and \<^verbatim>\<open>PodStatusErrorMessages\<close> compute display strings
  that no function below reads; they are parameters as well.
\<close>

record deps =
  HasOKPodTemplateSpecHash :: "K8sRuntimeState \<Rightarrow> V1Pod \<Rightarrow> bool"
  MostRecentPod :: "ManifestState \<Rightarrow> Pod"
  AllContainerRestarts :: "Pod \<Rightarrow> int"
  AllContainersReady :: "Pod \<Rightarrow> bool"
  AllRunningContainers :: "ManifestTarget \<Rightarrow> Container list"
  LastBuildSpanID :: "ManifestState \<Rightarrow> SpanID"
  PodContainers :: "V1Pod \<Rightarrow> ContainerStatus list \<Rightarrow> Container list"
  PodStatusToString :: "V1Pod \<Rightarrow> string"
  PodStatusErrorMessages :: "V1Pod \<Rightarrow> string list"
  NamespaceFromPod :: "V1Pod \<Rightarrow> Namespace"
  SpanIDForPod :: "PodID \<Rightarrow> SpanID"

section \<open>Port forwarding: populatePortForwards\<close>

text \<open>
  Modelled from the spec: \<^verbatim>\<open>Pod.AllContainerPorts\<close> belongs to the store package,
  which is not among the sources. The spec speaks of "the pod's actual container
  ports" and "the pod's exposed ports": the ports of the pod's containers, in
  container order.
\<close>

definition AllContainerPorts :: "Pod \<Rightarrow> int list" where
  "AllContainerPorts pod = concat (map ctrPorts (Containers pod))"

text \<open>
  The inner loop of \<^verbatim>\<open>populatePortForwards\<close>: the first exposed port equal to the
  local port overwrites the container port, and the loop breaks.
\<close>

fun matchLocalPort :: "PortForward \<Rightarrow> int list \<Rightarrow> PortForward" where
  "matchLocalPort forward [] = forward"
| "matchLocalPort forward (cPort # rest) =
     (if LocalPort forward = cPort then forward\<lparr>ContainerPort := cPort\<rparr>
      else matchLocalPort forward rest)"

text \<open>
  The outer loop, with the slice \<^verbatim>\<open>forwards\<close> built so far as an accumulator.
\<close>

fun populateLoop :: "int list \<Rightarrow> PortForward list \<Rightarrow> PortForward list \<Rightarrow> PortForward list" where
  "populateLoop cPorts [] forwards = forwards"
| "populateLoop cPorts (forward # fwds) forwards =
     (if ContainerPort forward = 0 then
        (case cPorts of
           [] \<Rightarrow> populateLoop cPorts fwds forwards
         | first # _ \<Rightarrow>
             populateLoop cPorts fwds
               (forwards @ [matchLocalPort (forward\<lparr>ContainerPort := first\<rparr>) cPorts]))
      else populateLoop cPorts fwds (forwards @ [forward]))"

definition populatePortForwards :: "Manifest \<Rightarrow> Pod \<Rightarrow> PortForward list" where
  "populatePortForwards m pod = populateLoop (AllContainerPorts pod) (mPortForwards m) []"

definition PortForwardsAreValid :: "Manifest \<Rightarrow> Pod \<Rightarrow> bool" where
  "PortForwardsAreValid m pod =
     (length (populatePortForwards m pod) = length (mPortForwards m))"

section \<open>Port forwarding: Controller.diff\<close>







section \<open>Runtime state reconciler: the pod handlers of the engine\<close>

text \<open>
  \<^verbatim>\<open>ms.K8sRuntimeState()\<close> is a type assertion that yields the zero value when the
  runtime state is not a Kubernetes one. The value is a copy of the struct, and its
  \<^verbatim>\<open>Pods\<close> map is shared with the manifest state: a write to the map through the
  copy is a write to the manifest state's map (\<open>setPods\<close>). The zero value has a
  nil map, which reads as empty.
\<close>

definition zeroK8sRuntimeState :: K8sRuntimeState where
  "zeroK8sRuntimeState = \<lparr>Pods = [], PodAncestorUID = '''', DeployedUIDSet = {},
     DeployedPodTemplateSpecHashSet = {}, LastReadyOrSucceededTime = 0\<rparr>"

definition K8sRuntimeState_of :: "ManifestState \<Rightarrow> K8sRuntimeState" where
  "K8sRuntimeState_of ms =
     (case RuntimeState ms of K8sRuntime r \<Rightarrow> r | OtherRuntime \<Rightarrow> zeroK8sRuntimeState)"

definition setPods :: "ManifestState \<Rightarrow> (PodID \<times> Pod) list \<Rightarrow> ManifestState" where
  "setPods ms pods =
     (case RuntimeState ms of
        K8sRuntime r \<Rightarrow> ms\<lparr>RuntimeState := K8sRuntime (r\<lparr>Pods := pods\<rparr>)\<rparr>
      | OtherRuntime \<Rightarrow> ms)"

text \<open>
  Modelled from the spec: \<^verbatim>\<open>K8sRuntimeState.PodLen\<close> (store package, not among the
  sources) is the number of tracked pods ("if more than one exists").
\<close>

definition PodLen :: "K8sRuntimeState \<Rightarrow> nat" where
  "PodLen runtime = length (Pods runtime)"

text \<open>
  Modelled from the spec: \<^verbatim>\<open>handleLogAction\<close> (engine package, not among the
  sources) records the log action in the engine state's log store.
\<close>

definition handleLogAction :: "EngineState \<Rightarrow> LogAction \<Rightarrow> EngineState" where
  "handleLogAction state action = state\<lparr>LogStore := LogStore state @ [action]\<rparr>"

subsection \<open>prunePods\<close>

text \<open>
  The first loop of \<^verbatim>\<open>prunePods\<close> ranges over the map and deletes the entries
  whose pod is flagged \<^verbatim>\<open>Deleting\<close>. The first argument is what the range has
  yet to visit, the second the map.
\<close>

fun deleteDeleting :: "(PodID \<times> Pod) list \<Rightarrow> (PodID \<times> Pod) list \<Rightarrow> (PodID \<times> Pod) list" where
  "deleteDeleting [] pods = pods"
| "deleteDeleting ((key, pod) # rest) pods =
     deleteDeleting rest (if Deleting pod then AList.delete key pods else pods)"

text \<open>
  The inner loop of the second phase: it deletes the first visited pod that is
  terminated and is not \<^verbatim>\<open>bestPod\<close>, and breaks.
\<close>

fun deleteOneDead :: "Pod \<Rightarrow> (PodID \<times> Pod) list \<Rightarrow> (PodID \<times> Pod) list \<Rightarrow> (PodID \<times> Pod) list" where
  "deleteOneDead bestPod [] pods = pods"
| "deleteOneDead bestPod ((key, pod) # rest) pods =
     (let isDead = (Phase pod = PodSucceeded \<or> Phase pod = PodFailed) in
      if isDead \<and> PodID pod \<noteq> PodID bestPod then AList.delete key pods
      else deleteOneDead bestPod rest pods)"

text \<open>
  The body of \<^verbatim>\<open>for runtime.PodLen() > 1\<close> ends with an unconditional
  \<^verbatim>\<open>return\<close>: it runs at most once.
\<close>

definition prunePods :: "deps \<Rightarrow> ManifestState \<Rightarrow> ManifestState" where
  "prunePods deps ms =
     (let runtime = K8sRuntimeState_of ms;
          ms1 = setPods ms (deleteDeleting (Pods runtime) (Pods runtime));
          runtime1 = K8sRuntimeState_of ms1
      in if PodLen runtime1 > 1 then
           (let bestPod = MostRecentPod deps ms1
            in setPods ms1 (deleteOneDead bestPod (Pods runtime1) (Pods runtime1)))
         else ms1)"

subsection \<open>restartedContainerNames\<close>

fun restartedContainerNames :: "Container list \<Rightarrow> Container list \<Rightarrow> ContainerName list" where
  "restartedContainerNames existingContainers [] = []"
| "restartedContainerNames [] (c # newContainers) = []"
| "restartedContainerNames (existing # existingContainers) (c # newContainers) =
     (if ctrName existing \<noteq> ctrName c then
        restartedContainerNames existingContainers newContainers
      else if ctrRestarts c > ctrRestarts existing then
        ctrName c # restartedContainerNames existingContainers newContainers
      else restartedContainerNames existingContainers newContainers)"

subsection \<open>matchPodChangeToManifest and maybeTrackPod\<close>

definition matchPodChangeToManifest :: "EngineState \<Rightarrow> PodChangeAction \<Rightarrow> ManifestTarget option" where
  "matchPodChangeToManifest state action =
     (let manifestName = actManifestName action;
          matchedAncestorUID = actMatchedAncestorUID action
      in case ManifestTargets state manifestName of
           None \<Rightarrow> None
         | Some mt \<Rightarrow>
             (let ms = mtState mt;
                  runtime = K8sRuntimeState_of ms;
                  isAncestorMatched = (matchedAncestorUID \<noteq> '''')
              in if isAncestorMatched \<and> matchedAncestorUID \<notin> DeployedUIDSet runtime
                 then None else Some mt))"

text \<open>
  \<^verbatim>\<open>maybeTrackPod\<close> returns the tracked pod (\<open>None\<close> for the nil pointer), whether
  the pod is new, and the manifest state it leaves. \<^verbatim>\<open>k8s.PodIDFromPod\<close> is the
  pod's name. A new entry of the map comes last in the list. The map is written
  only where it is not nil: a runtime state that is not a Kubernetes one has an
  empty \<^verbatim>\<open>PodAncestorUID\<close>, so it takes the branch that allocates a map.
\<close>

definition maybeTrackPod :: "deps \<Rightarrow> ManifestState \<Rightarrow> PodChangeAction \<Rightarrow> Pod option \<times> bool \<times> ManifestState" where
  "maybeTrackPod deps ms action =
     (let pod = actPod action;
          podID = v1Name pod;
          runtime = K8sRuntimeState_of ms;
          isCurrentDeploy = HasOKPodTemplateSpecHash deps runtime pod
      in if \<not> isCurrentDeploy then (map_of (Pods runtime) podID, False, ms)
         else
           (let matchedAncestorUID = actMatchedAncestorUID action;
                isAncestorMatch = (matchedAncestorUID \<noteq> '''');
                reset = (PodAncestorUID runtime = '''' \<or>
                         (isAncestorMatch \<and> PodAncestorUID runtime \<noteq> matchedAncestorUID));
                runtime1 = (if reset
                            then runtime\<lparr>Pods := [], PodAncestorUID := matchedAncestorUID\<rparr>
                            else runtime);
                ms1 = (if reset then ms\<lparr>RuntimeState := K8sRuntime runtime1\<rparr> else ms)
            in case map_of (Pods runtime1) podID of
                 None \<Rightarrow>
                   (let podInfo = zeroPod\<lparr>PodID := podID\<rparr>
                    in (Some podInfo, True, setPods ms1 (Pods runtime1 @ [(podID, podInfo)])))
               | Some podInfo \<Rightarrow> (Some podInfo, False, ms1)))"

subsection \<open>checkForContainerCrash\<close>

definition crashMessage :: "ManifestName \<Rightarrow> string" where
  "crashMessage name = ''Detected a container change for '' @ name @
     ''. We could be running stale code. Rebuilding and deploying a new image.''"

text \<open>
  The hit list starts as the live-updated container IDs; the loop over the running
  containers deletes their IDs from it.
\<close>

fun deleteRunning :: "Container list \<Rightarrow> ContainerID set \<Rightarrow> ContainerID set" where
  "deleteRunning [] hitList = hitList"
| "deleteRunning (c # runningContainers) hitList = deleteRunning runningContainers (hitList - {ctrID c})"

text \<open>
  \<^verbatim>\<open>mt\<close> points into the engine state; the function returns the state (whose log
  store it may extend) and the manifest target it leaves behind the pointer.
\<close>

definition checkForContainerCrash :: "deps \<Rightarrow> EngineState \<Rightarrow> ManifestTarget \<Rightarrow> EngineState \<times> ManifestTarget" where
  "checkForContainerCrash deps state mt =
     (let ms = mtState mt
      in if NeedsRebuildFromCrash ms then (state, mt)
         else
           (let runningContainers = AllRunningContainers deps mt;
                hitList = deleteRunning runningContainers (LiveUpdatedContainerIDs ms)
            in if hitList = {} then (state, mt)
               else
                 (let ms1 = ms\<lparr>NeedsRebuildFromCrash := True, LiveUpdatedContainerIDs := {}\<rparr>;
                      msg = crashMessage (msName ms1);
                      le = \<lparr>laManifestName = msName ms1, laSpanID = LastBuildSpanID deps ms1,
                            laLevel = WarnLvl, laMessage = msg @ [CHR 0x0A]\<rparr>
                  in (handleLogAction state le, mt\<lparr>mtState := ms1\<rparr>))))"

subsection \<open>handlePodChangeAction\<close>

definition restartMessage :: "PodID \<Rightarrow> ContainerName \<Rightarrow> string" where
  "restartMessage podID name =
     ''Detected container restart. Pod: '' @ podID @ ''. Container: '' @ name @ ''.''"

definition restartLogAction :: "Manifest \<Rightarrow> Pod \<Rightarrow> ContainerName \<Rightarrow> LogAction" where
  "restartLogAction manifest podInfo name =
     \<lparr>laManifestName = mName manifest, laSpanID = SpanID podInfo, laLevel = WarnLvl,
      laMessage = restartMessage (PodID podInfo) name\<rparr>"

text \<open>
  \<^verbatim>\<open>podInfo\<close> is a pointer to the pod stored in the map under \<^verbatim>\<open>podID\<close>. A write
  to one of its fields shows in the map for as long as the entry is there;
  \<^verbatim>\<open>prunePods\<close> may delete the entry, and then the writes reach the detached pod
  only.
\<close>

definition writePod :: "ManifestState \<Rightarrow> PodID \<Rightarrow> Pod \<Rightarrow> ManifestState" where
  "writePod ms podID podInfo =
     setPods ms (map (\<lambda>(key, p). if key = podID then (key, podInfo) else (key, p))
                   (Pods (K8sRuntimeState_of ms)))"

definition fwdWarning :: "ManifestName \<Rightarrow> PodID \<Rightarrow> string" where
  "fwdWarning name podID = ''Resource '' @ name @
     '' is using port forwards, but no container ports on pod '' @ podID"

text \<open>
  \<^verbatim>\<open>handlePodChangeAction\<close> returns the engine state and the lines it wrote to the
  logger of its context. \<^verbatim>\<open>now\<close> is the value of \<^verbatim>\<open>time.Now()\<close>. The manifest
  target \<^verbatim>\<open>mt\<close> is a pointer into \<^verbatim>\<open>state.ManifestTargets\<close> under the action's
  manifest name: what the function leaves behind it is stored there.
\<close>

definition handlePodChangeAction :: "deps \<Rightarrow> Time \<Rightarrow> EngineState \<Rightarrow> PodChangeAction \<Rightarrow> EngineState \<times> string list" where
  "handlePodChangeAction deps now state action =
     (case matchPodChangeToManifest state action of
        None \<Rightarrow> (state, [])
      | Some mt \<Rightarrow>
          (let pod = actPod action;
               ms = mtState mt;
               manifest = mtManifest mt;
               podID = v1Name pod;
               store = (\<lambda>st m. st\<lparr>ManifestTargets := (ManifestTargets st)(actManifestName action \<mapsto> m)\<rparr>)
           in case maybeTrackPod deps ms action of
                (None, isNew, ms1) \<Rightarrow> (store state (mt\<lparr>mtState := ms1\<rparr>), [])
              | (Some podInfo0, isNew, ms1) \<Rightarrow>
                  (let podInfo1 = podInfo0\<lparr>
                         StartedAt := v1CreationTimestamp pod,
                         Status := PodStatusToString deps pod,
                         Namespace := NamespaceFromPod deps pod,
                         SpanID := SpanIDForPod deps (PodID podInfo0),
                         Deleting := (case v1DeletionTimestamp pod of None \<Rightarrow> False | Some t \<Rightarrow> t \<noteq> 0),
                         Phase := v1Phase pod,
                         StatusMessages := PodStatusErrorMessages deps pod,
                         Conditions := v1Conditions pod\<rparr>;
                       ms2 = prunePods deps (writePod ms1 podID podInfo1);
                       initContainers = PodContainers deps pod (v1InitContainerStatuses pod);
                       initNames = (if \<not> isNew
                                    then restartedContainerNames (InitContainers podInfo1) initContainers
                                    else []);
                       state1 = fold (\<lambda>name st. handleLogAction st (restartLogAction manifest podInfo1 name))
                                  initNames state;
                       podInfo2 = podInfo1\<lparr>InitContainers := initContainers\<rparr>;
                       containers = PodContainers deps pod (v1ContainerStatuses pod);
                       names = (if \<not> isNew
                                then restartedContainerNames (Containers podInfo2) containers
                                else []);
                       state2 = fold (\<lambda>name st. handleLogAction st (restartLogAction manifest podInfo2 name))
                                  names state1;
                       podInfo3 = podInfo2\<lparr>Containers := containers\<rparr>;
                       podInfo4 = (if isNew
                                   then podInfo3\<lparr>BaselineRestarts := AllContainerRestarts deps podInfo3\<rparr>
                                   else podInfo3);
                       ms3 = writePod ms2 podID podInfo4
                   in if Containers podInfo4 = [] then (store state2 (mt\<lparr>mtState := ms3\<rparr>), [])
                      else
                        (let ms4 = (if AllContainersReady deps podInfo4 \<or> Phase podInfo4 = PodSucceeded
                                    then ms3\<lparr>RuntimeState := K8sRuntime
                                           ((K8sRuntimeState_of ms3)\<lparr>LastReadyOrSucceededTime := now\<rparr>)\<rparr>
                                    else ms3);
                             fwdsValid = PortForwardsAreValid manifest podInfo4;
                             warnings = (if \<not> fwdsValid
                                         then [fwdWarning (mName manifest) (PodID podInfo4)] else [])
                         in case checkForContainerCrash deps state2 (mt\<lparr>mtState := ms4\<rparr>) of
                              (state3, mt1) \<Rightarrow> (store state3 mt1, warnings)))))"



section \<open>Ownership-based triage: PodWatcher and EventWatchManager\<close>

text \<open>
  An extra selector pairs a manifest name with a label selector. The selector is
  the interface \<^verbatim>\<open>labels.Selector\<close> of the Kubernetes library; it is modelled by its
  method \<^verbatim>\<open>Matches\<close>, a predicate on the pod's labels.
\<close>

record ExtraSelector =
  esName :: ManifestName
  esLabels :: "(string \<times> string) list \<Rightarrow> bool"

text \<open>
  The state of a \<^verbatim>\<open>PodWatcher\<close> behind its mutex: the extra selectors, the
  deployed UIDs of \<^verbatim>\<open>watcherKnownState\<close>, the index of descendant pods and the
  known pods. The Go maps are partial functions; a \<^verbatim>\<open>store.UIDSet\<close> is a set.
\<close>

record PodWatcher =
  extraSelectors :: "ExtraSelector list"
  knownDeployedUIDs :: "UID \<rightharpoonup> ManifestName"
  knownDescendentPodUIDs :: "UID \<rightharpoonup> UID set"
  knownPods :: "UID \<rightharpoonup> V1Pod"

definition upsertPod :: "PodWatcher \<Rightarrow> V1Pod \<Rightarrow> PodWatcher" where
  "upsertPod w pod = w\<lparr>knownPods := (knownPods w)(v1UID pod \<mapsto> pod)\<rparr>"

text \<open>
  The first loop of \<^verbatim>\<open>triagePodTree\<close>, over the UIDs of the owner tree: the pod's
  own UID is skipped; under every other UID the pod's UID is added to the set of
  descendants, which is created when the UID has none.
\<close>

fun indexPodDescendant :: "UID \<Rightarrow> UID list \<Rightarrow> (UID \<rightharpoonup> UID set) \<Rightarrow> (UID \<rightharpoonup> UID set)" where
  "indexPodDescendant uid [] index = index"
| "indexPodDescendant uid (ownerUID # rest) index =
     (if uid = ownerUID then indexPodDescendant uid rest index
      else (let set = (case index ownerUID of None \<Rightarrow> {} | Some s \<Rightarrow> s)
            in indexPodDescendant uid rest (index(ownerUID \<mapsto> insert uid set))))"

text \<open>The second loop: the first UID of the tree that is a deployed UID.\<close>

fun findDeployedUID :: "(UID \<rightharpoonup> ManifestName) \<Rightarrow> UID list \<Rightarrow> (ManifestName \<times> UID) option" where
  "findDeployedUID known [] = None"
| "findDeployedUID known (ownerUID # rest) =
     (case known ownerUID of
        Some mn \<Rightarrow> Some (mn, ownerUID)
      | None \<Rightarrow> findDeployedUID known rest)"

text \<open>The third loop: the first extra selector that matches the pod's labels.\<close>

fun findSelector :: "ExtraSelector list \<Rightarrow> (string \<times> string) list \<Rightarrow> ManifestName option" where
  "findSelector [] podLabels = None"
| "findSelector (selector # rest) podLabels =
     (if esLabels selector podLabels then Some (esName selector)
      else findSelector rest podLabels)"

text \<open>
  \<^verbatim>\<open>triagePodTree\<close>. The argument \<open>uids\<close> is \<^verbatim>\<open>objTree.UIDs()\<close>, the UIDs of the
  owner tree in the order in which \<^verbatim>\<open>k8s.ObjectRefTree\<close> (not among the sources)
  lists them. The result is the watcher's new state, the manifest name and the
  matched ancestor UID.
\<close>

definition triagePodTree :: "PodWatcher \<Rightarrow> V1Pod \<Rightarrow> UID list \<Rightarrow> PodWatcher \<times> ManifestName \<times> UID" where
  "triagePodTree w pod uids =
     (let uid = v1UID pod;
          w1 = w\<lparr>knownDescendentPodUIDs := indexPodDescendant uid uids (knownDescendentPodUIDs w)\<rparr>
      in case findDeployedUID (knownDeployedUIDs w1) uids of
           Some (mn, ownerUID) \<Rightarrow> (w1, mn, ownerUID)
         | None \<Rightarrow>
             (case findSelector (extraSelectors w1) (v1Labels pod) of
                Some name \<Rightarrow> (w1, name, '''')
              | None \<Rightarrow> (w1, '''', '''')))"

text \<open>\<^verbatim>\<open>v1.Event\<close>: the fields read by the code below.\<close>

record V1Event =
  evUID :: UID
  evName :: string
  evType :: string
  evReason :: string

record EventWatchManager =
  evKnownDeployedUIDs :: "UID \<rightharpoonup> ManifestName"
  knownDescendentEventUIDs :: "UID \<rightharpoonup> UID set"
  knownEvents :: "UID \<rightharpoonup> V1Event"

text \<open>
  The first loop of \<^verbatim>\<open>triageEventUpdate\<close>, over the UIDs of the owner tree of the
  involved object: it has no test on the event's own UID.
\<close>

fun indexEventDescendant :: "UID \<Rightarrow> UID list \<Rightarrow> (UID \<rightharpoonup> UID set) \<Rightarrow> (UID \<rightharpoonup> UID set)" where
  "indexEventDescendant uid [] index = index"
| "indexEventDescendant uid (ownerUID # rest) index =
     (let set = (case index ownerUID of None \<Rightarrow> {} | Some s \<Rightarrow> s)
      in indexEventDescendant uid rest (index(ownerUID \<mapsto> insert uid set)))"

fun findDeployedName :: "(UID \<rightharpoonup> ManifestName) \<Rightarrow> UID list \<Rightarrow> ManifestName" where
  "findDeployedName known [] = ''''"
| "findDeployedName known (ownerUID # rest) =
     (case known ownerUID of
        Some mn \<Rightarrow> mn
      | None \<Rightarrow> findDeployedName known rest)"

definition triageEventUpdate :: "EventWatchManager \<Rightarrow> V1Event \<Rightarrow> UID list \<Rightarrow> EventWatchManager \<times> ManifestName" where
  "triageEventUpdate m event uids =
     (let uid = evUID event;
          m1 = m\<lparr>knownEvents := (knownEvents m)(uid \<mapsto> event)\<rparr>;
          m2 = m1\<lparr>knownDescendentEventUIDs :=
                   indexEventDescendant uid uids (knownDescendentEventUIDs m1)\<rparr>
      in (m2, findDeployedName (evKnownDeployedUIDs m2) uids))"

section \<open>Log streaming: the health check of consumeLogs\<close>

text \<open>
  The two package variables, in nanoseconds: \<^verbatim>\<open>15 * time.Second\<close> and
  \<^verbatim>\<open>2 * time.Second\<close>.
\<close>

definition podLogHealthCheck :: Duration where
  "podLogHealthCheck = 15 * 1000000000"

definition podLogReconnectGap :: Duration where
  "podLogReconnectGap = 2 * 1000000000"

text \<open>
  The goroutine that \<^verbatim>\<open>consumeLogs\<close> starts next to every open stream. At a tick
  of its ticker it reads \<^verbatim>\<open>reader.LastReadTime()\<close> and \<^verbatim>\<open>m.since(lastRead)\<close>; a tick
  is given by these two values. The list holds the ticks that arrive while the
  stream is open: when it is used up, \<^verbatim>\<open>done\<close> was closed first and the goroutine
  returns (\<open>None\<close>). At a stale tick the goroutine sets \<^verbatim>\<open>retry\<close>, sets
  \<^verbatim>\<open>startReadTime\<close> to the value returned here, cancels the stream and returns.
  \<^verbatim>\<open>Time.Add\<close> is addition: the times of a log stream are far from the ends of the
  range of \<^verbatim>\<open>time.Time\<close>.
\<close>

fun healthCheck :: "(Time \<times> Duration) list \<Rightarrow> Time option" where
  "healthCheck [] = None"
| "healthCheck ((lastRead, sinceLastRead) # ticks) =
     (if lastRead = 0 \<or> sinceLastRead < podLogHealthCheck then healthCheck ticks
      else Some (lastRead + podLogReconnectGap))"

text \<open>
  One pass of the loop \<^verbatim>\<open>for retry\<close> opens a stream and copies it until it ends.
  What the outside world does during a pass is given: whether
  \<^verbatim>\<open>kClient.ContainerLogs\<close> fails, and the ticks seen while the stream is open.
\<close>

record Attempt =
  openFails :: bool
  ticks :: "(Time \<times> Duration) list"

text \<open>
  What \<^verbatim>\<open>consumeLogs\<close> does, as a trace: the calls of \<^verbatim>\<open>ContainerLogs\<close> with their
  start time, the cancellations by the health check, and the error status written
  when a stream cannot be opened.
\<close>

datatype StreamEvent = ContainerLogsCall Time | HealthCheckCancel | StatusError

text \<open>
  \<^verbatim>\<open>consumeLogs\<close>, from \<^verbatim>\<open>startReadTime\<close> on, against the attempts that the outside
  world grants; when they are used up the trace ends with the call that is under
  way. A stream that ends with \<^verbatim>\<open>retry\<close> unset ends the loop: the test
  \<^verbatim>\<open>ctx.Err() == nil\<close> after \<^verbatim>\<open>cancel()\<close> is on the context just cancelled, so the
  branch that would record a read error is never taken.
\<close>

fun consumeLogs :: "Time \<Rightarrow> Attempt list \<Rightarrow> StreamEvent list" where
  "consumeLogs startReadTime [] = [ContainerLogsCall startReadTime]"
| "consumeLogs startReadTime (a # attempts) =
     ContainerLogsCall startReadTime #
       (if openFails a then [StatusError]
        else (case healthCheck (ticks a) of
                Some restartTime \<Rightarrow> HealthCheckCancel # consumeLogs restartTime attempts
              | None \<Rightarrow> []))"

section \<open>Concrete scenarios\<close>

text \<open>
  An instance of the parameters, used where a theorem is applied to a concrete
  input: every pod is of the current deploy, the most recent pod is the one created
  last, the restarts of a pod are those of its containers, and so on.
\<close>

definition exampleDeps :: deps where
  "exampleDeps = \<lparr>
     HasOKPodTemplateSpecHash = (\<lambda>runtime pod. True),
     MostRecentPod = (\<lambda>ms. case Pods (K8sRuntimeState_of ms) of
          [] \<Rightarrow> zeroPod
        | (k, p) # rest \<Rightarrow> fold (\<lambda>(k, q) best. if StartedAt best < StartedAt q then q else best) rest p),
     AllContainerRestarts = (\<lambda>p. sum_list (map ctrRestarts (Containers p))),
     AllContainersReady = (\<lambda>p. Containers p \<noteq> [] \<and> list_all ctrReady (Containers p)),
     AllRunningContainers = (\<lambda>mt. concat (map (\<lambda>(k, p). filter ctrRunning (Containers p))
          (Pods (K8sRuntimeState_of (mtState mt))))),
     LastBuildSpanID = (\<lambda>ms. ''build:1''),
     PodContainers = (\<lambda>pod statuses. map (\<lambda>s. \<lparr>ctrName = csName s, ctrID = csContainerID s,
          ctrPorts = [], ctrReady = csReady s, ctrRunning = csRunning s,
          ctrTerminated = False, ctrRestarts = csRestartCount s\<rparr>) statuses),
     PodStatusToString = v1Phase,
     PodStatusErrorMessages = (\<lambda>pod. []),
     NamespaceFromPod = v1Namespace,
     SpanIDForPod = (\<lambda>podID. ''pod:'' @ podID)\<rparr>"

text \<open>
  Two terminated pods and a running one, created in this order, none of them
  flagged Deleting.
\<close>

definition podA :: Pod where
  "podA = zeroPod\<lparr>PodID := ''a'', StartedAt := 1, Phase := PodSucceeded\<rparr>"

definition podB :: Pod where
  "podB = zeroPod\<lparr>PodID := ''b'', StartedAt := 2, Phase := PodFailed\<rparr>"

definition podC :: Pod where
  "podC = zeroPod\<lparr>PodID := ''c'', StartedAt := 3, Phase := PodRunning\<rparr>"

definition threePods :: ManifestState where
  "threePods = \<lparr>msName = ''foo'',
     RuntimeState = K8sRuntime (zeroK8sRuntimeState\<lparr>
       Pods := [(''a'', podA), (''b'', podB), (''c'', podC)]\<rparr>),
     NeedsRebuildFromCrash = False, LiveUpdatedContainerIDs = {}\<rparr>"

text \<open>
  The resource \<open>foo\<close>, deployed with one UID, which is also the ancestor of its
  tracked pods, and an engine state that holds it.
\<close>

definition fooManifest :: Manifest where
  "fooManifest = \<lparr>mName = ''foo'', mPortForwards = []\<rparr>"

definition fooTarget :: "UID \<Rightarrow> (PodID \<times> Pod) list \<Rightarrow> ContainerID set \<Rightarrow> ManifestTarget" where
  "fooTarget uid pods live = \<lparr>mtManifest = fooManifest,
     mtState = \<lparr>msName = ''foo'',
       RuntimeState = K8sRuntime \<lparr>Pods = pods, PodAncestorUID = uid, DeployedUIDSet = {uid},
         DeployedPodTemplateSpecHashSet = {}, LastReadyOrSucceededTime = 0\<rparr>,
       NeedsRebuildFromCrash = False, LiveUpdatedContainerIDs = live\<rparr>\<rparr>"

definition fooEngine :: "ManifestTarget \<Rightarrow> EngineState" where
  "fooEngine mt = \<lparr>ManifestTargets = [''foo'' \<mapsto> mt], LogStore = []\<rparr>"

definition appContainer :: "ContainerID \<Rightarrow> int \<Rightarrow> Container" where
  "appContainer cid restarts = \<lparr>ctrName = ''app'', ctrID = cid, ctrPorts = [], ctrReady = True,
     ctrRunning = True, ctrTerminated = False, ctrRestarts = restarts\<rparr>"

text \<open>
  A pod change: the running pod \<open>name\<close> with one container \<open>app\<close> that has
  restarted \<open>restarts\<close> times, matched to the manifest \<open>mn\<close> through the ancestor
  \<open>uid\<close>.
\<close>

definition podChange :: "string \<Rightarrow> int \<Rightarrow> ManifestName \<Rightarrow> UID \<Rightarrow> PodChangeAction" where
  "podChange name restarts mn uid = \<lparr>
     actPod = \<lparr>v1UID = name, v1Name = name, v1Namespace = ''default'', v1Labels = [],
       v1CreationTimestamp = 5, v1DeletionTimestamp = None, v1Phase = PodRunning,
       v1Conditions = [], v1InitContainerStatuses = [],
       v1ContainerStatuses = [\<lparr>csName = ''app'', csContainerID = ''c1'', csReady = True,
         csRunning = True, csRestartCount = restarts\<rparr>]\<rparr>,
     actManifestName = mn, actMatchedAncestorUID = uid\<rparr>"




section \<open>Port forwarding: properties of populatePortForwards\<close>

lemma matchLocalPort_eq:
  "matchLocalPort forward cPorts =
     (if LocalPort forward \<in> set cPorts then forward\<lparr>ContainerPort := LocalPort forward\<rparr>
      else forward)"
  by (induction cPorts) auto

lemma populateLoop_map_filter:
  "populateLoop cPorts fwds acc =
     acc @ List.map_filter
       (\<lambda>f. if ContainerPort f \<noteq> 0 then Some f
            else if cPorts = [] then None
            else Some (f\<lparr>ContainerPort :=
                   (if LocalPort f \<in> set cPorts then LocalPort f else hd cPorts)\<rparr>)) fwds"
proof (induction fwds arbitrary: acc)
  case Nil
  show ?case by (simp add: List.map_filter_simps)
next
  case (Cons f fwds)
  show ?case
  proof (cases cPorts)
    case Nil
    with Cons show ?thesis by (simp add: List.map_filter_simps)
  next
    case (Cons first rest)
    with Cons.IH show ?thesis
      by (simp add: List.map_filter_simps matchLocalPort_eq del: matchLocalPort.simps)
  qed
qed

text \<open>
  C10. The result of \<^verbatim>\<open>populatePortForwards\<close> is the manifest's forwards in spec
  order, each one resolved on its own: a forward with a nonzero container port is
  kept as it is; a forward with container port 0 is dropped when the pod exposes no
  port, and otherwise gets the exposed port equal to its local port if there is
  one, else the pod's first exposed port.
\<close>

theorem populatePortForwards_spec:
  "populatePortForwards m pod =
     List.map_filter
       (\<lambda>f. if ContainerPort f \<noteq> 0 then Some f
            else if AllContainerPorts pod = [] then None
            else Some (f\<lparr>ContainerPort :=
                   (if LocalPort f \<in> set (AllContainerPorts pod) then LocalPort f
                    else hd (AllContainerPorts pod))\<rparr>))
       (mPortForwards m)"
  by (simp add: populatePortForwards_def populateLoop_map_filter)

section \<open>Port forwarding: properties of Controller.diff\<close>




























section \<open>Runtime state reconciler: auxiliary facts\<close>

lemma K8sRuntimeState_of_K8s [simp]:
  "K8sRuntimeState_of (ms\<lparr>RuntimeState := K8sRuntime r\<rparr>) = r"
  by (simp add: K8sRuntimeState_of_def)

lemma msName_setPods [simp]: "msName (setPods ms pods) = msName ms"
  by (simp add: setPods_def split: RuntimeState.splits)

lemma msName_writePod [simp]: "msName (writePod ms k p) = msName ms"
  by (simp add: writePod_def)

lemma msName_prunePods [simp]: "msName (prunePods deps ms) = msName ms"
  by (simp add: prunePods_def Let_def)

lemma setPods_setPods [simp]: "setPods (setPods ms p1) p2 = setPods ms p2"
  by (simp add: setPods_def split: RuntimeState.splits)

lemma deleteRunning_eq: "deleteRunning cs h = h - ctrID ` set cs"
  by (induction cs arbitrary: h) auto



subsection \<open>prunePods\<close>

lemma deleteDeleting_filter:
  "deleteDeleting todo pods =
     filter (\<lambda>(k, q). \<forall>p. (k, p) \<in> set todo \<longrightarrow> \<not> Deleting p) pods"
proof (induction todo arbitrary: pods)
  case Nil
  show ?case by simp
next
  case (Cons x todo)
  obtain key pod where x: "x = (key, pod)" by (cases x)
  show ?case
    unfolding x
    by (auto simp: Cons.IH AList.delete_eq intro!: filter_cong)
qed

lemma deleteDeleting_self:
  assumes "distinct (map fst pods)"
  shows "deleteDeleting pods pods = filter (\<lambda>(k, p). \<not> Deleting p) pods"
proof -
  have "(k, q) \<in> set pods \<Longrightarrow>
      (\<forall>p. (k, p) \<in> set pods \<longrightarrow> \<not> Deleting p) = (\<not> Deleting q)" for k q
    using assms by (auto dest: eq_key_imp_eq_value)
  then show ?thesis
    unfolding deleteDeleting_filter by (intro filter_cong) auto
qed

lemma length_delete_distinct:
  "distinct (map fst al) \<Longrightarrow> length al \<le> Suc (length (AList.delete k al))"
  by (induction al) auto

lemma deleteOneDead_length:
  "distinct (map fst pods) \<Longrightarrow> length pods \<le> Suc (length (deleteOneDead best todo pods))"
  by (induction todo) (auto simp: Let_def length_delete_distinct)

lemma deleteOneDead_subset: "set (deleteOneDead best todo pods) \<subseteq> set pods"
  by (induction todo) (auto simp: Let_def AList.delete_eq split: if_splits)

lemma prunePods_Pods:
  "Pods (K8sRuntimeState_of (prunePods deps ms)) =
     (let pods = Pods (K8sRuntimeState_of ms);
          pods1 = deleteDeleting pods pods
      in if length pods1 > 1
         then deleteOneDead (MostRecentPod deps (setPods ms pods1)) pods1 pods1
         else pods1)"
  by (cases "RuntimeState ms")
     (simp_all add: prunePods_def Let_def PodLen_def setPods_def K8sRuntimeState_of_def
        zeroK8sRuntimeState_def)

text \<open>The first phase does what its comment says: no pod flagged Deleting is left.\<close>

lemma prunePods_no_Deleting:
  assumes "distinct (map fst (Pods (K8sRuntimeState_of ms)))"
    and "(k, p) \<in> set (Pods (K8sRuntimeState_of (prunePods deps ms)))"
  shows "\<not> Deleting p"
proof -
  let ?pods1 = "filter (\<lambda>(k, p). \<not> Deleting p) (Pods (K8sRuntimeState_of ms))"
  from assms have "(k, p) \<in> set ?pods1"
    by (auto simp: prunePods_Pods Let_def deleteDeleting_self split: if_splits
        dest: deleteOneDead_subset[THEN subsetD])
  then show ?thesis by simp
qed

text \<open>
  The second phase removes at most one pod, whatever the order of the map and
  whatever \<^verbatim>\<open>MostRecentPod\<close> returns.
\<close>

lemma prunePods_removes_at_most_one:
  assumes "distinct (map fst (Pods (K8sRuntimeState_of ms)))"
  shows "length (filter (\<lambda>(k, p). \<not> Deleting p) (Pods (K8sRuntimeState_of ms)))
           \<le> Suc (length (Pods (K8sRuntimeState_of (prunePods deps ms))))"
proof -
  have "distinct (map fst (filter (\<lambda>(k, p). \<not> Deleting p) (Pods (K8sRuntimeState_of ms))))"
    using assms by (simp add: distinct_map_filter)
  then show ?thesis
    using assms by (simp add: prunePods_Pods Let_def deleteDeleting_self deleteOneDead_length)
qed

subsection \<open>checkForContainerCrash\<close>



lemma checkForContainerCrash_runtime [simp]:
  "K8sRuntimeState_of (mtState (snd (checkForContainerCrash deps state mt))) =
     K8sRuntimeState_of (mtState mt)"
  by (simp add: checkForContainerCrash_def Let_def K8sRuntimeState_of_def)

subsection \<open>maybeTrackPod and writePod\<close>

lemma matchPodChangeToManifest_None_iff:
  "matchPodChangeToManifest state action = None \<longleftrightarrow>
     (case ManifestTargets state (actManifestName action) of
        None \<Rightarrow> True
      | Some mt \<Rightarrow> actMatchedAncestorUID action \<noteq> '''' \<and>
          actMatchedAncestorUID action \<notin> DeployedUIDSet (K8sRuntimeState_of (mtState mt)))"
  by (auto simp: matchPodChangeToManifest_def Let_def split: option.splits)


lemma maybeTrackPod_new_pod:
  "maybeTrackPod deps ms action = (Some podInfo, True, ms1) \<Longrightarrow>
   podInfo = zeroPod\<lparr>PodID := v1Name (actPod action)\<rparr>"
  by (auto simp: maybeTrackPod_def Let_def split: if_splits option.splits)

lemma map_of_overwrite:
  "map_of (map (\<lambda>(key, q). if key = k then (key, p) else (key, q)) pods) k =
     (if k \<in> fst ` set pods then Some p else None)"
proof (induction pods)
  case Nil
  show ?case by simp
next
  case (Cons x pods)
  obtain key q where x: "x = (key, q)" by (cases x)
  show ?case using Cons.IH by (simp add: x)
qed

lemma writePod_lookup:
  "map_of (Pods (K8sRuntimeState_of (writePod ms k p))) k = Some q \<Longrightarrow> q = p"
  by (auto simp: writePod_def setPods_def K8sRuntimeState_of_def zeroK8sRuntimeState_def
      map_of_overwrite split: RuntimeState.splits if_splits)


subsection \<open>handlePodChangeAction\<close>


lemma handlePodChangeAction_new_pod_baseline:
  assumes match: "matchPodChangeToManifest state action = Some mt"
    and track: "maybeTrackPod deps (mtState mt) action = (Some podInfo, isNew, ms1)"
  shows "\<exists>mt'. ManifestTargets (fst (handlePodChangeAction deps now state action))
            (actManifestName action) = Some mt' \<and>
          (isNew \<longrightarrow> (\<forall>p. map_of (Pods (K8sRuntimeState_of (mtState mt'))) (v1Name (actPod action)) = Some p \<longrightarrow>
               BaselineRestarts p = AllContainerRestarts deps (p\<lparr>BaselineRestarts := 0\<rparr>)))"
proof (cases isNew)
  case False
  with match track show ?thesis
    by (simp add: handlePodChangeAction_def Let_def split_beta)
next
  case True
  have zero: "podInfo = zeroPod\<lparr>PodID := v1Name (actPod action)\<rparr>"
    using track True by (auto dest: maybeTrackPod_new_pod)
  have "\<exists>mt' X P. ManifestTargets (fst (handlePodChangeAction deps now state action))
            (actManifestName action) = Some mt' \<and>
          Pods (K8sRuntimeState_of (mtState mt')) =
            Pods (K8sRuntimeState_of (writePod X (v1Name (actPod action)) P)) \<and>
          BaselineRestarts P = AllContainerRestarts deps (P\<lparr>BaselineRestarts := 0\<rparr>)"
    using match track True
    apply (simp add: handlePodChangeAction_def Let_def split_beta)
    apply ((intro conjI impI)?; (rule exI, rule exI, rule conjI, rule refl, simp add: zero zeroPod_def))
    done
  then show ?thesis
    using True by (metis writePod_lookup)
qed





lemma crashMessage_not_restartMessage:
  "crashMessage n @ [CHR 0x0A] \<noteq> restartMessage p c"
  by (simp add: crashMessage_def restartMessage_def)














section \<open>Ownership-based triage: properties\<close>

lemma findDeployedUID_find:
  "findDeployedUID known uids =
     (case find (\<lambda>u. known u \<noteq> None) uids of
        None \<Rightarrow> None
      | Some u \<Rightarrow> Some (the (known u), u))"
  by (induction uids) (auto split: option.splits)

lemma findSelector_find:
  "findSelector sels podLabels = map_option esName (find (\<lambda>s. esLabels s podLabels) sels)"
  by (induction sels) auto

lemma findDeployedName_find:
  "findDeployedName known uids =
     (case find (\<lambda>u. known u \<noteq> None) uids of None \<Rightarrow> '''' | Some u \<Rightarrow> the (known u))"
  by (induction uids) (auto split: option.splits)

lemma indexPodDescendant_eq:
  "indexPodDescendant uid uids index =
     (\<lambda>a. if a \<in> set uids \<and> a \<noteq> uid
          then Some (insert uid (case index a of None \<Rightarrow> {} | Some s \<Rightarrow> s))
          else index a)"
  by (induction uids arbitrary: index) (auto simp: Let_def fun_eq_iff split: option.splits)

lemma indexEventDescendant_eq:
  "indexEventDescendant uid uids index =
     (\<lambda>a. if a \<in> set uids
          then Some (insert uid (case index a of None \<Rightarrow> {} | Some s \<Rightarrow> s))
          else index a)"
  by (induction uids arbitrary: index) (auto simp: Let_def fun_eq_iff split: option.splits)

lemma triagePodTree_index:
  "knownDescendentPodUIDs (fst (triagePodTree w pod uids)) =
     indexPodDescendant (v1UID pod) uids (knownDescendentPodUIDs w)"
  by (simp add: triagePodTree_def Let_def split: option.splits)

lemma triageEventUpdate_index:
  "knownDescendentEventUIDs (fst (triageEventUpdate m event uids)) =
     indexEventDescendant (evUID event) uids (knownDescendentEventUIDs m)"
  by (simp add: triageEventUpdate_def Let_def)

text \<open>
  C3. A pod is stored in the known pods when it is observed (\<^verbatim>\<open>upsertPod\<close>), and
  \<^verbatim>\<open>triagePodTree\<close> leaves the known pods as they are, whatever it returns. It
  returns the manifest name of the first UID of the owner tree that is a deployed
  UID, with that UID; when there is none, the name of the first extra selector that
  matches the pod's labels, with the empty UID; when there is none either, the
  empty name with the empty UID.
\<close>

theorem triagePodTree_spec:
  "knownPods (upsertPod w pod) (v1UID pod) = Some pod \<and>
   knownPods (fst (triagePodTree w pod uids)) = knownPods w \<and>
   snd (triagePodTree w pod uids) =
     (case find (\<lambda>u. knownDeployedUIDs w u \<noteq> None) uids of
        Some u \<Rightarrow> (the (knownDeployedUIDs w u), u)
      | None \<Rightarrow>
          (case find (\<lambda>s. esLabels s (v1Labels pod)) (extraSelectors w) of
             Some s \<Rightarrow> (esName s, '''')
           | None \<Rightarrow> ('''', '''')))"
  by (simp add: upsertPod_def triagePodTree_def Let_def findDeployedUID_find findSelector_find
      split: option.splits)

text \<open>
  C4. The claim has both triages leave out the entry under the object's own UID.
  The event triage does not: an event whose UID is among the UIDs of the owner tree
  is recorded under its own UID.
\<close>

theorem triageEventUpdate_self_entry:
  "knownDescendentEventUIDs
     (fst (triageEventUpdate
        \<lparr>evKnownDeployedUIDs = Map.empty, knownDescendentEventUIDs = Map.empty,
         knownEvents = Map.empty\<rparr>
        \<lparr>evUID = ''e1'', evName = ''ev'', evType = ''Warning'', evReason = ''BackOff''\<rparr>
        [''e1'', ''d1''])) ''e1'' = Some {''e1''}"
  by (simp add: triageEventUpdate_def Let_def)

text \<open>
  C4, amended. The pod triage records the pod's UID under every UID of the owner
  tree other than the pod's own; the event triage records the event's UID under
  every UID of the owner tree of the involved object, its own UID included when it
  occurs there. No other entry of either index changes.
\<close>

theorem triage_descendant_index:
  "knownDescendentPodUIDs (fst (triagePodTree w pod uids)) =
     (\<lambda>a. if a \<in> set uids \<and> a \<noteq> v1UID pod
          then Some (insert (v1UID pod)
                 (case knownDescendentPodUIDs w a of None \<Rightarrow> {} | Some s \<Rightarrow> s))
          else knownDescendentPodUIDs w a) \<and>
   knownDescendentEventUIDs (fst (triageEventUpdate m event uids)) =
     (\<lambda>a. if a \<in> set uids
          then Some (insert (evUID event)
                 (case knownDescendentEventUIDs m a of None \<Rightarrow> {} | Some s \<Rightarrow> s))
          else knownDescendentEventUIDs m a)"
  by (simp only: triagePodTree_index triageEventUpdate_index indexPodDescendant_eq
      indexEventDescendant_eq simp_thms)

text \<open>
  The scenario of the spec: the pod \<open>p1\<close> is owned by the replica set \<open>rs1\<close>,
  owned by the deployment \<open>d1\<close> that the resource \<open>foo\<close> deployed.
\<close>

lemma triagePodTree_example:
  "snd (triagePodTree
     \<lparr>extraSelectors = [], knownDeployedUIDs = [''d1'' \<mapsto> ''foo''],
      knownDescendentPodUIDs = Map.empty, knownPods = Map.empty\<rparr>
     (actPod (podChange ''p1'' 0 ''foo'' ''d1'')) [''p1'', ''rs1'', ''d1'']) = (''foo'', ''d1'')"
  by (simp add: triagePodTree_def Let_def podChange_def)

section \<open>Runtime state reconciler: the claims\<close>

lemmas example_defs = exampleDeps_def fooManifest_def fooTarget_def fooEngine_def appContainer_def
  podChange_def zeroPod_def PodRunning_def PodSucceeded_def PodFailed_def

text \<open>
  C1. Pruning is claimed to repeat until at most one pod is left or no terminated
  pod other than the most recent one remains. The code removes the pods flagged
  Deleting, and then at most one terminated pod: with the terminated pods \<open>a\<close> and
  \<open>b\<close> and the running pod \<open>c\<close>, two pods are left after \<^verbatim>\<open>prunePods\<close>, whatever
  \<^verbatim>\<open>MostRecentPod\<close> returns; when it returns \<open>c\<close>, the pod created last, the
  terminated pod \<open>b\<close> stays next to it.
\<close>

theorem prunePods_two_terminated_one_running:
  "map fst (Pods (K8sRuntimeState_of (prunePods deps threePods))) =
     (if PodID (MostRecentPod deps threePods) = ''a'' then [''a'', ''c''] else [''b'', ''c''])"
  unfolding prunePods_Pods
  by (simp add: Let_def threePods_def podA_def podB_def podC_def zeroPod_def
      zeroK8sRuntimeState_def K8sRuntimeState_of_def setPods_def PodSucceeded_def PodFailed_def
      PodRunning_def)




text \<open>
  C5. For a pod of the current deploy, when the resource tracks no ancestor UID yet,
  or the action carries a non-empty ancestor UID other than the tracked one,
  \<^verbatim>\<open>maybeTrackPod\<close> replaces the map of tracked pods by one that holds the incoming
  pod alone, as a new pod, and adopts the action's ancestor UID.
\<close>

theorem maybeTrackPod_new_ancestor:
  assumes "HasOKPodTemplateSpecHash deps (K8sRuntimeState_of ms) (actPod action)"
    and "PodAncestorUID (K8sRuntimeState_of ms) = '''' \<or>
         (actMatchedAncestorUID action \<noteq> '''' \<and>
          PodAncestorUID (K8sRuntimeState_of ms) \<noteq> actMatchedAncestorUID action)"
  shows "maybeTrackPod deps ms action =
     (Some (zeroPod\<lparr>PodID := v1Name (actPod action)\<rparr>), True,
      ms\<lparr>RuntimeState := K8sRuntime ((K8sRuntimeState_of ms)\<lparr>
            Pods := [(v1Name (actPod action), zeroPod\<lparr>PodID := v1Name (actPod action)\<rparr>)],
            PodAncestorUID := actMatchedAncestorUID action\<rparr>)\<rparr>)"
  using assms by (auto simp: maybeTrackPod_def Let_def setPods_def)

theorem maybeTrackPod_new_ancestor_witness:
  "maybeTrackPod exampleDeps
     (mtState (fooTarget ''U1'' [(''P1'', zeroPod\<lparr>PodID := ''P1''\<rparr>)] {}))
     (podChange ''P2'' 0 ''foo'' ''U2'') =
   (Some (zeroPod\<lparr>PodID := ''P2''\<rparr>), True,
    mtState (fooTarget ''U1'' [(''P1'', zeroPod\<lparr>PodID := ''P1''\<rparr>)] {})
      \<lparr>RuntimeState := K8sRuntime \<lparr>Pods = [(''P2'', zeroPod\<lparr>PodID := ''P2''\<rparr>)],
         PodAncestorUID = ''U2'', DeployedUIDSet = {''U1''},
         DeployedPodTemplateSpecHashSet = {}, LastReadyOrSucceededTime = 0\<rparr>\<rparr>)"
proof -
  let ?ms = "mtState (fooTarget ''U1'' [(''P1'', zeroPod\<lparr>PodID := ''P1''\<rparr>)] {})"
  let ?action = "podChange ''P2'' 0 ''foo'' ''U2''"
  have h1: "HasOKPodTemplateSpecHash exampleDeps (K8sRuntimeState_of ?ms) (actPod ?action)"
    by (simp add: exampleDeps_def)
  have h2: "PodAncestorUID (K8sRuntimeState_of ?ms) = '''' \<or>
         (actMatchedAncestorUID ?action \<noteq> '''' \<and>
          PodAncestorUID (K8sRuntimeState_of ?ms) \<noteq> actMatchedAncestorUID ?action)"
    by (simp add: fooTarget_def podChange_def K8sRuntimeState_of_def)
  from maybeTrackPod_new_ancestor[OF h1 h2] show ?thesis
    by (simp add: fooTarget_def podChange_def K8sRuntimeState_of_def)
qed

text \<open>
  C6. A pod change that names an unknown manifest, or that carries a non-empty
  ancestor UID outside the deployed UID set of its manifest, leaves the engine
  state as it is and writes nothing to the logger.
\<close>

theorem handlePodChangeAction_stale_noop:
  assumes "ManifestTargets state (actManifestName action) = None \<or>
     (\<exists>mt. ManifestTargets state (actManifestName action) = Some mt \<and>
           actMatchedAncestorUID action \<noteq> '''' \<and>
           actMatchedAncestorUID action \<notin> DeployedUIDSet (K8sRuntimeState_of (mtState mt)))"
  shows "handlePodChangeAction deps now state action = (state, [])"
proof -
  from assms have "matchPodChangeToManifest state action = None"
    by (auto simp: matchPodChangeToManifest_None_iff)
  then show ?thesis by (simp add: handlePodChangeAction_def)
qed

theorem handlePodChangeAction_stale_noop_witness:
  "handlePodChangeAction exampleDeps 9
     (fooEngine (fooTarget ''U2'' [] {})) (podChange ''P1'' 0 ''foo'' ''U1'') =
     (fooEngine (fooTarget ''U2'' [] {}), []) \<and>
   handlePodChangeAction exampleDeps 9
     (fooEngine (fooTarget ''U2'' [] {})) (podChange ''P1'' 0 ''bar'' ''U2'') =
     (fooEngine (fooTarget ''U2'' [] {}), [])"
proof -
  let ?state = "fooEngine (fooTarget ''U2'' [] {})"
  have stale: "ManifestTargets ?state (actManifestName (podChange ''P1'' 0 ''foo'' ''U1'')) = None \<or>
     (\<exists>mt. ManifestTargets ?state (actManifestName (podChange ''P1'' 0 ''foo'' ''U1'')) = Some mt \<and>
           actMatchedAncestorUID (podChange ''P1'' 0 ''foo'' ''U1'') \<noteq> '''' \<and>
           actMatchedAncestorUID (podChange ''P1'' 0 ''foo'' ''U1'')
             \<notin> DeployedUIDSet (K8sRuntimeState_of (mtState mt)))"
    by (simp add: fooEngine_def fooTarget_def podChange_def K8sRuntimeState_of_def)
  have unknown: "ManifestTargets ?state (actManifestName (podChange ''P1'' 0 ''bar'' ''U2'')) = None \<or>
     (\<exists>mt. ManifestTargets ?state (actManifestName (podChange ''P1'' 0 ''bar'' ''U2'')) = Some mt \<and>
           actMatchedAncestorUID (podChange ''P1'' 0 ''bar'' ''U2'') \<noteq> '''' \<and>
           actMatchedAncestorUID (podChange ''P1'' 0 ''bar'' ''U2'')
             \<notin> DeployedUIDSet (K8sRuntimeState_of (mtState mt)))"
    by (simp add: fooEngine_def podChange_def)
  from handlePodChangeAction_stale_noop[OF stale] handlePodChangeAction_stale_noop[OF unknown]
  show ?thesis by simp
qed

text \<open>
  C7. For a manifest target not yet flagged as needing a rebuild from crash: when
  some live-updated container ID is not the ID of a running container,
  \<^verbatim>\<open>checkForContainerCrash\<close> sets the flag, empties the live-updated set and logs a
  warning; otherwise the engine state and the target are unchanged.
\<close>

theorem checkForContainerCrash_spec:
  "\<not> NeedsRebuildFromCrash (mtState mt) \<Longrightarrow>
   checkForContainerCrash deps state mt =
     (if \<exists>cID \<in> LiveUpdatedContainerIDs (mtState mt).
           cID \<notin> ctrID ` set (AllRunningContainers deps mt)
      then (state\<lparr>LogStore := LogStore state @
               [\<lparr>laManifestName = msName (mtState mt),
                 laSpanID = LastBuildSpanID deps
                   ((mtState mt)\<lparr>NeedsRebuildFromCrash := True, LiveUpdatedContainerIDs := {}\<rparr>),
                 laLevel = WarnLvl,
                 laMessage = crashMessage (msName (mtState mt)) @ [CHR 0x0A]\<rparr>]\<rparr>,
            mt\<lparr>mtState := (mtState mt)\<lparr>NeedsRebuildFromCrash := True,
                 LiveUpdatedContainerIDs := {}\<rparr>\<rparr>)
      else (state, mt))"
  by (auto simp: checkForContainerCrash_def Let_def deleteRunning_eq handleLogAction_def)

theorem checkForContainerCrash_spec_witness:
  "(let mt = fooTarget ''U1'' [(''P1'', zeroPod\<lparr>PodID := ''P1'', Containers := [appContainer ''c2'' 0]\<rparr>)] {''c1''};
        r = checkForContainerCrash exampleDeps (fooEngine mt) mt
    in NeedsRebuildFromCrash (mtState (snd r)) \<and> LiveUpdatedContainerIDs (mtState (snd r)) = {} \<and>
       length (LogStore (fst r)) = 1) \<and>
   (let mt = fooTarget ''U1'' [(''P1'', zeroPod\<lparr>PodID := ''P1'', Containers := [appContainer ''c1'' 0]\<rparr>)] {''c1''}
    in checkForContainerCrash exampleDeps (fooEngine mt) mt = (fooEngine mt, mt))"
proof -
  let ?mt2 = "fooTarget ''U1'' [(''P1'', zeroPod\<lparr>PodID := ''P1'', Containers := [appContainer ''c2'' 0]\<rparr>)] {''c1''}"
  let ?mt1 = "fooTarget ''U1'' [(''P1'', zeroPod\<lparr>PodID := ''P1'', Containers := [appContainer ''c1'' 0]\<rparr>)] {''c1''}"
  have h2: "\<not> NeedsRebuildFromCrash (mtState ?mt2)" by (simp add: fooTarget_def)
  have h1: "\<not> NeedsRebuildFromCrash (mtState ?mt1)" by (simp add: fooTarget_def)
  from checkForContainerCrash_spec[OF h2, of exampleDeps "fooEngine ?mt2"]
       checkForContainerCrash_spec[OF h1, of exampleDeps "fooEngine ?mt1"]
  show ?thesis
    by (simp add: Let_def example_defs K8sRuntimeState_of_def)
qed


section \<open>Log streaming: properties\<close>

lemma healthCheck_first_stale:
  assumes "\<forall>(l, d) \<in> set before. l = 0 \<or> d < podLogHealthCheck"
    and "lastRead \<noteq> 0" and "podLogHealthCheck \<le> sinceLastRead"
  shows "healthCheck (before @ (lastRead, sinceLastRead) # after) =
           Some (lastRead + podLogReconnectGap)"
  using assms by (induction before) auto

lemma consumeLogs_starts_with_call:
  "\<exists>trace. consumeLogs t attempts = ContainerLogsCall t # trace"
  by (cases attempts) simp_all

text \<open>
  C9. Take a stream that was opened, and a tick of its health check at which the
  last read time is not zero and lies at least the health check interval of 15
  seconds back, all earlier ticks of this stream having found it healthy. Then the
  stream is cancelled, and the next thing \<^verbatim>\<open>consumeLogs\<close> does is to call
  \<^verbatim>\<open>ContainerLogs\<close> with the last read time plus the reconnect gap of 2 seconds,
  a time after the last read.
\<close>

theorem consumeLogs_stale_restart:
  assumes "\<not> openFails a"
    and "ticks a = before @ (lastRead, sinceLastRead) # after"
    and "\<forall>(l, d) \<in> set before. l = 0 \<or> d < podLogHealthCheck"
    and "lastRead \<noteq> 0" and "podLogHealthCheck \<le> sinceLastRead"
  shows "\<exists>trace. consumeLogs startReadTime (a # attempts) =
           ContainerLogsCall startReadTime # HealthCheckCancel #
           ContainerLogsCall (lastRead + 2 * 1000000000) # trace \<and>
         lastRead < lastRead + 2 * 1000000000"
proof -
  have "healthCheck (ticks a) = Some (lastRead + podLogReconnectGap)"
    unfolding assms(2) using assms(3-5) by (rule healthCheck_first_stale)
  moreover obtain trace where
    "consumeLogs (lastRead + podLogReconnectGap) attempts =
       ContainerLogsCall (lastRead + podLogReconnectGap) # trace"
    using consumeLogs_starts_with_call by blast
  ultimately show ?thesis
    using assms(1) by (simp add: podLogReconnectGap_def)
qed

theorem consumeLogs_stale_restart_witness:
  "consumeLogs 1000
     [\<lparr>openFails = False,
       ticks = [(0, 15000000000), (20000000000, 3000000000), (20000000000, 18000000000)]\<rparr>,
      \<lparr>openFails = False, ticks = []\<rparr>] =
   [ContainerLogsCall 1000, HealthCheckCancel, ContainerLogsCall 22000000000]"
proof -
  let ?a = "\<lparr>openFails = False,
       ticks = [(0, 15000000000), (20000000000, 3000000000), (20000000000, 18000000000)]\<rparr>"
  have h1: "\<not> openFails ?a" by simp
  have h2: "ticks ?a = [(0, 15000000000), (20000000000, 3000000000)] @
      (20000000000, 18000000000) # []" by simp
  have h3: "\<forall>(l, d) \<in> set [(0 :: Time, 15000000000 :: Duration), (20000000000, 3000000000)].
      l = 0 \<or> d < podLogHealthCheck" by (simp add: podLogHealthCheck_def)
  have h4: "(20000000000 :: Time) \<noteq> 0" by simp
  have h5: "podLogHealthCheck \<le> (18000000000 :: Duration)" by (simp add: podLogHealthCheck_def)
  from consumeLogs_stale_restart[OF h1 h2 h3 h4 h5, of 1000 "[\<lparr>openFails = False, ticks = []\<rparr>]"]
  show ?thesis by (simp add: podLogHealthCheck_def podLogReconnectGap_def)
qed


end
